theory Spec2Isabelle
  imports Main "HOL-Library.Word"
begin

unbundle bit_operations_syntax

section \<open>The PN532 UART driver (pn532.py)\<close>

text \<open>
  A shallow embedding of the class \<^verbatim>\<open>PN532Uart\<close> of \<^verbatim>\<open>pn532.py\<close>.
  The elements of a \<^verbatim>\<open>bytes\<close> or \<^verbatim>\<open>bytearray\<close> object are 8-bit values
  (\<open>8 word\<close>); every other Python integer is an unbounded \<open>int\<close>. Reading an element
  gives its value \<open>uint b\<close>; storing an integer into a \<^verbatim>\<open>bytearray\<close> is
  \<open>word_of_int\<close>. The module only stores constants below 256 and values it has masked
  with \<^verbatim>\<open>& 0xFF\<close>; command parameters are taken as bytes already.
  The \<^verbatim>\<open>debug\<close> printing has no effect on results and is left out.
\<close>

type_synonym byte = "8 word"

subsection \<open>Module constants\<close>

definition WAKEUP :: "byte list" where
  "WAKEUP = [0x55, 0x55, 0x00, 0x00, 0x00, 0x00, 0x00, 0x00, 0x00, 0x00, 0x00, 0x00, 0x00, 0x00]"

definition COMMAND_GETFIRMWAREVERSION :: int where
  "COMMAND_GETFIRMWAREVERSION = 0x02"

definition COMMAND_INLISTPASSIVETARGET :: int where
  "COMMAND_INLISTPASSIVETARGET = 0x4A"

definition COMMAND_INRELEASE :: int where
  "COMMAND_INRELEASE = 0x52"

definition COMMAND_SAMCONFIGURATION :: int where
  "COMMAND_SAMCONFIGURATION = 0x14"

definition PREAMBLE :: int where
  "PREAMBLE = 0x00"

definition STARTCODE1 :: int where
  "STARTCODE1 = 0x00"

definition STARTCODE2 :: int where
  "STARTCODE2 = 0xFF"

definition POSTAMBLE :: int where
  "POSTAMBLE = 0x00"

definition HOSTTOPN532 :: int where
  "HOSTTOPN532 = 0xD4"

definition PN532TOHOST :: int where
  "PN532TOHOST = 0xD5"

definition ACK :: "byte list" where
  "ACK = [0x00, 0x00, 0xFF, 0x00, 0xFF, 0x00]"

definition FRAME_START :: "byte list" where
  "FRAME_START = [0x00, 0x00, 0xFF]"

definition MIFARE_ISO14443A :: byte where
  "MIFARE_ISO14443A = 0x00"

subsection \<open>Failures\<close>

text \<open>
  Every \<^verbatim>\<open>raise\<close>, the \<^verbatim>\<open>assert\<close> of \<^verbatim>\<open>_write_frame\<close> and every
  out-of-range index is a value of \<open>error\<close>. The module raises \<^verbatim>\<open>RuntimeError\<close>
  with a message per site; the constructors name the sites:
  \<^item> \<open>InvalidPayload\<close>: the \<^verbatim>\<open>AssertionError\<close> 'Data must be array of 1 to 255 bytes.';
  \<^item> \<open>AckMismatch\<close>: 'Did not receive expected ACK from PN532!';
  \<^item> \<open>MalformedStart\<close>: 'Response does not begin with _FRAME_START!';
  \<^item> \<open>LengthChecksumMismatch\<close>: 'Response length checksum did not match length!';
  \<^item> \<open>PayloadChecksumMismatch\<close>: 'Response checksum did not match expected value: ';
  \<^item> \<open>MissingFrameEnd\<close>: 'Response does not include Frame End';
  \<^item> \<open>TruncatedResponse\<close>: 'Received smaller than expected frame';
  \<^item> \<open>UnexpectedResponse\<close>: 'Received unexpected command response!';
  \<^item> \<open>DeviceNotDetected\<close>: 'Failed to detect the PN532';
  \<^item> \<open>MultipleCardsDetected\<close>: 'More than one card detected!';
  \<^item> \<open>UidTooLong\<close>: 'Found card with unexpectedly long UID!';
  \<^item> \<open>IndexError\<close>: Python's error for an index outside a sequence.
\<close>

datatype error =
    InvalidPayload
  | AckMismatch
  | MalformedStart
  | LengthChecksumMismatch
  | PayloadChecksumMismatch
  | MissingFrameEnd
  | TruncatedResponse
  | UnexpectedResponse
  | DeviceNotDetected
  | MultipleCardsDetected
  | UidTooLong
  | IndexError

subsection \<open>The serial port\<close>

text \<open>
  \<^verbatim>\<open>machine.UART\<close> and the \<^verbatim>\<open>uasyncio\<close> stream reader and writer are not part
  of the module; the model keeps what the driver can observe of them.
  \<^item> \<open>buffered u k\<close> is what the \<open>k\<close>-th call of \<^verbatim>\<open>uart.any()\<close> answers, and
    \<open>polls u\<close> counts the calls made so far.
  \<^item> \<open>incoming u\<close> are the chunks of bytes that reach the stream reader, in order. A
    \<^verbatim>\<open>sreader.read(n)\<close> takes up to \<open>n\<close> bytes of the first chunk and leaves the rest of
    it for the next read. With no chunk left the read never returns (the coroutine stays
    suspended): the result is \<open>None\<close>.
  \<^item> \<open>trace u\<close> records every operation performed on the port.
\<close>

datatype event =
    Wrote "byte list"
  | Drained
  | Polled nat
  | Discarded nat
  | ReadReq nat

record uart =
  buffered :: "nat \<Rightarrow> nat"
  polls :: nat
  incoming :: "byte list list"
  trace :: "event list"

text \<open>
  A coroutine of the driver maps the port to \<open>None\<close> when it never returns, and otherwise
  to its result, a failure (\<open>Inl\<close>) or a value (\<open>Inr\<close>), with the port afterwards.
\<close>

type_synonym 'a io = "uart \<Rightarrow> ((error + 'a) \<times> uart) option"

definition ret :: "'a \<Rightarrow> 'a io" where
  "ret x u = Some (Inr x, u)"

definition raise :: "error \<Rightarrow> 'a io" where
  "raise e u = Some (Inl e, u)"

definition bind_io :: "'a io \<Rightarrow> ('a \<Rightarrow> 'b io) \<Rightarrow> 'b io" where
  "bind_io m f u =
     (case m u of
        None \<Rightarrow> None
      | Some (Inl e, u') \<Rightarrow> Some (Inl e, u')
      | Some (Inr x, u') \<Rightarrow> f x u')"

definition awrite :: "byte list \<Rightarrow> unit io" where
  "awrite bs u = Some (Inr (), u\<lparr>trace := trace u @ [Wrote bs]\<rparr>)"

definition drain :: "unit io" where
  "drain u = Some (Inr (), u\<lparr>trace := trace u @ [Drained]\<rparr>)"

definition uart_any :: "uart \<Rightarrow> nat \<times> uart" where
  "uart_any u =
     (buffered u (polls u),
      u\<lparr>polls := Suc (polls u), trace := trace u @ [Polled (buffered u (polls u))]\<rparr>)"

definition uart_read :: "nat \<Rightarrow> uart \<Rightarrow> uart" where
  "uart_read n u = u\<lparr>trace := trace u @ [Discarded n]\<rparr>"

definition sreader_read :: "nat \<Rightarrow> byte list io" where
  "sreader_read n u =
     (case incoming u of
        [] \<Rightarrow> None
      | c # cs \<Rightarrow>
          Some (Inr (take n c),
                u\<lparr>incoming := (if n < length c then drop n c # cs else cs),
                  trace := trace u @ [ReadReq n]\<rparr>))"

subsection \<open>Writing a frame\<close>

text \<open>
  Lines 57 to 68 of \<^verbatim>\<open>_write_frame\<close>: the frame is allocated with \<open>length + 8\<close> zero
  bytes, and the slice assignment \<^verbatim>\<open>frame[5:-2] = data\<close> replaces its \<open>length + 1\<close>
  bytes from index 5 to the last but two by the \<open>length\<close> bytes of \<open>data\<close>, which
  shortens the array by one. \<^verbatim>\<open>frame[-2]\<close> and \<^verbatim>\<open>frame[-1]\<close> are the last two
  bytes of the array after that.
\<close>

definition build_frame :: "byte list \<Rightarrow> byte list" where
  "build_frame data =
     (let len = int (length data);
          frame = replicate (length data + 8) (0 :: byte);
          frame = frame[0 := word_of_int PREAMBLE];
          frame = frame[1 := word_of_int STARTCODE1];
          frame = frame[2 := word_of_int STARTCODE2];
          checksum = sum_list (map uint (take 3 frame));
          frame = frame[3 := word_of_int (len AND 0xFF)];
          frame = frame[4 := word_of_int ((NOT len + 1) AND 0xFF)];
          frame = take 5 frame @ data @ drop (length frame - 2) frame;
          checksum = checksum + sum_list (map uint data);
          frame = frame[length frame - 2 := word_of_int (NOT checksum AND 0xFF)];
          frame = frame[length frame - 1 := word_of_int POSTAMBLE]
      in frame)"

text \<open>
  The \<^verbatim>\<open>assert\<close> of line 47 followed by the construction of the frame: the part of
  \<^verbatim>\<open>_write_frame\<close> that performs no input or output.
\<close>

definition encode :: "byte list \<Rightarrow> error + byte list" where
  "encode data =
     (if 1 < length data \<and> length data < 255 then Inr (build_frame data)
      else Inl InvalidPayload)"

text \<open>
  The loop of lines 81 to 85, entered with the first answer of \<^verbatim>\<open>uart.any()\<close>: it
  discards what is buffered and asks again, for as long as something is buffered.
\<close>

partial_function (option) flush_loop :: "nat \<Rightarrow> uart \<Rightarrow> uart option" where
  "flush_loop waiting u =
     (if waiting > 0
      then flush_loop (fst (uart_any (uart_read waiting u))) (snd (uart_any (uart_read waiting u)))
      else Some u)"

text \<open>
  Lines 80 to 85 as a whole: the first \<^verbatim>\<open>uart.any()\<close>, then the loop.
\<close>

definition flush :: "unit io" where
  "flush u =
     (case flush_loop (fst (uart_any u)) (snd (uart_any u)) of
        None \<Rightarrow> None
      | Some u' \<Rightarrow> Some (Inr (), u'))"

definition write_frame :: "byte list \<Rightarrow> unit io" where
  "write_frame data =
     (case encode data of
        Inl e \<Rightarrow> raise e
      | Inr frame \<Rightarrow>
          bind_io (awrite WAKEUP) (\<lambda>_.
          bind_io flush (\<lambda>_.
          bind_io (awrite frame) (\<lambda>_.
          bind_io drain (\<lambda>_.
          bind_io (sreader_read (length ACK)) (\<lambda>ack.
          if ack \<noteq> ACK then raise AckMismatch else ret ()))))))"

subsection \<open>Reading a frame\<close>

text \<open>
  \<^verbatim>\<open>response[:-2]\<close>, \<^verbatim>\<open>response[-2]\<close> and \<^verbatim>\<open>response[-1]\<close> are evaluated
  only after the length test, on a response of at least five bytes. \<^verbatim>\<open>data[-1]\<close>
  has no such test before it: on an empty \<open>data\<close> it raises \<^verbatim>\<open>IndexError\<close>.
\<close>

definition read_frame :: "byte list io" where
  "read_frame =
     bind_io (sreader_read (length FRAME_START + 2)) (\<lambda>response.
     if length response < length FRAME_START + 2
        \<or> take (length response - 2) response \<noteq> FRAME_START
     then raise MalformedStart
     else
       let frame_len = uint (response ! (length response - 2));
           frame_checksum = uint (response ! (length response - 1))
       in
       if (frame_len + frame_checksum) AND 0xFF \<noteq> 0 then raise LengthChecksumMismatch
       else
         bind_io (sreader_read (nat (frame_len + 2))) (\<lambda>data.
         let checksum = sum_list (map uint data) AND 0xFF in
         if checksum \<noteq> 0 then raise PayloadChecksumMismatch
         else if data = [] then raise IndexError
         else if uint (last data) \<noteq> 0x00 then raise MissingFrameEnd
         else ret (take (nat frame_len) data)))"

subsection \<open>The command dispatcher\<close>

text \<open>
  Lines 135 to 139 of \<^verbatim>\<open>call_function\<close>: the payload is allocated with
  \<open>2 + len(params)\<close> zero bytes and filled by index.
\<close>

definition build_payload :: "int \<Rightarrow> byte list \<Rightarrow> byte list" where
  "build_payload command params =
     (let data = replicate (2 + length params) (0 :: byte);
          data = data[0 := word_of_int HOSTTOPN532];
          data = data[1 := word_of_int (command AND 0xFF)]
      in fold (\<lambda>(i, val) d. d[2 + i := val]) (enumerate 0 params) data)"

definition call_function :: "int \<Rightarrow> byte list \<Rightarrow> byte list io" where
  "call_function command params =
     bind_io (write_frame (build_payload command params)) (\<lambda>_.
     bind_io read_frame (\<lambda>response.
     if length response < 2 then raise TruncatedResponse
     else if \<not> (uint (response ! 0) = PN532TOHOST \<and> uint (response ! 1) = command + 1)
     then raise UnexpectedResponse
     else ret (drop 2 response)))"

subsection \<open>Device operations\<close>

definition SAM_configuration :: "unit io" where
  "SAM_configuration =
     bind_io (call_function COMMAND_SAMCONFIGURATION [0x01, 0x14, 0x01]) (\<lambda>response. ret ())"

text \<open>
  \<^verbatim>\<open>call_function\<close> returns a \<^verbatim>\<open>bytes\<close> object or raises, so the test
  \<^verbatim>\<open>response is None\<close> of \<^verbatim>\<open>get_firmware_version\<close> is false for every response.
\<close>

definition is_None :: "byte list \<Rightarrow> bool" where
  "is_None response = False"

definition get_firmware_version :: "int list io" where
  "get_firmware_version =
     bind_io (call_function COMMAND_GETFIRMWAREVERSION []) (\<lambda>response.
     if is_None response then raise DeviceNotDetected
     else ret (map uint response))"

text \<open>
  \<^verbatim>\<open>response[0]\<close> and \<^verbatim>\<open>response[5]\<close> raise \<^verbatim>\<open>IndexError\<close> on a response
  that is too short; the slice \<^verbatim>\<open>response[6:6+response[5]]\<close> stops at the end of the
  response.
\<close>

definition slice :: "nat \<Rightarrow> nat \<Rightarrow> 'a list \<Rightarrow> 'a list" where
  "slice i j xs = drop i (take j xs)"

definition read_passive_target :: "byte \<Rightarrow> byte list io" where
  "read_passive_target card_baud =
     bind_io (call_function COMMAND_INLISTPASSIVETARGET [0x01, card_baud]) (\<lambda>response.
     if length response \<le> 0 then raise IndexError
     else if uint (response ! 0) \<noteq> 0x01 then raise MultipleCardsDetected
     else if length response \<le> 5 then raise IndexError
     else if uint (response ! 5) > 7 then raise UidTooLong
     else ret (slice 6 (6 + unat (response ! 5)) response))"

definition release_targets :: "unit io" where
  "release_targets =
     bind_io (call_function COMMAND_INRELEASE [0x00]) (\<lambda>response. ret ())"

text \<open>
  A port on which nothing stale is buffered and the given chunks arrive.
\<close>

definition quiet_uart :: "byte list list \<Rightarrow> uart" where
  "quiet_uart chunks = \<lparr>buffered = (\<lambda>k. 0), polls = 0, incoming = chunks, trace = []\<rparr>"

text \<open>
  The requests made to the stream reader, in the order they were made: what is left of the
  trace when the writes, the polls and the discarded bytes are dropped.
\<close>

fun is_ReadReq :: "event \<Rightarrow> bool" where
  "is_ReadReq (ReadReq n) = True"
| "is_ReadReq _ = False"

definition stream_reads :: "uart \<Rightarrow> event list" where
  "stream_reads u = filter is_ReadReq (trace u)"

section \<open>The frame format\<close>

lemma word8_and_ff: "(word_of_int (k AND 0xFF) :: byte) = word_of_int k"
proof -
  have "(0xFF::int) = mask 8" by (simp add: mask_eq_exp_minus_1)
  then show ?thesis
    by (simp only: flip: take_bit_eq_mask) (simp add: word_of_int_eq_iff)
qed

lemma int_and_ff_zero: "(k AND 0xFF = 0) = ((word_of_int k :: byte) = 0)"
proof -
  have "(0xFF::int) = mask 8" by (simp add: mask_eq_exp_minus_1)
  then show ?thesis
    by (simp only: word_of_int_eq_0_iff flip: take_bit_eq_mask) (simp add: take_bit_eq_0_iff)
qed

lemma sum_uint_word: "(word_of_int (sum_list (map uint xs)) :: byte) = sum_list xs"
  by (induction xs) simp_all

lemma unat_length_byte: "n \<le> 255 \<Longrightarrow> unat (word_of_nat n :: byte) = n"
  by (simp add: unat_of_nat)

lemma replicate_plus8: "replicate (n + 8) x = x # x # x # x # x # x # x # x # replicate n x"
proof -
  have "n + 8 = Suc (Suc (Suc (Suc (Suc (Suc (Suc (Suc n)))))))" by simp
  then show ?thesis by (simp only: replicate_Suc)
qed

lemma drop_two_replicate: "drop n (x # x # replicate n x) = [x, x]"
proof -
  have "x # x # replicate n x = replicate (n + 2) x" by simp
  then show ?thesis by (simp only: drop_replicate) (simp add: numeral_2_eq_2)
qed

text \<open>
  The frame \<^verbatim>\<open>_write_frame\<close> sends: preamble, start code, length, length checksum
  (the two's complement of the length), the data, the data checksum (the two's complement
  of the sum of the data) and the postamble.
\<close>

lemma build_frame_eq:
  "build_frame data =
     [0, 0, 0xFF, word_of_int (int (length data)), - word_of_int (int (length data))]
       @ data @ [- sum_list data, 0]"
proof -
  have a: "(word_of_int ((NOT (int (length data)) + 1) AND 0xFF) :: byte)
             = - word_of_int (int (length data))"
    by (simp add: word8_and_ff not_int_def)
  have b: "(word_of_int (NOT (255 + sum_list (map uint data)) AND 0xFF) :: byte)
             = - sum_list data"
    by (simp add: word8_and_ff not_int_def sum_uint_word)
  show ?thesis
    unfolding build_frame_def Let_def PREAMBLE_def STARTCODE1_def STARTCODE2_def POSTAMBLE_def
      replicate_plus8
    using a b
    by (simp add: word8_and_ff list_update_append drop_two_replicate)
qed

lemma fold_enumerate_update:
  "fold (\<lambda>(i, val) d. d[2 + i := val]) (enumerate n ps) (pre @ old @ post)
     = pre @ ps @ post"
  if "length pre = 2 + n" "length old = length ps"
  using that
proof (induction ps arbitrary: n pre old)
  case Nil
  then show ?case by simp
next
  case (Cons p ps)
  then obtain o1 old' where old: "old = o1 # old'" by (cases old) auto
  have "fold (\<lambda>(i, val) d. d[2 + i := val]) (enumerate (Suc n) ps) ((pre @ [p]) @ old' @ post)
      = (pre @ [p]) @ ps @ post"
    using Cons.prems old by (intro Cons.IH) auto
  then show ?case using Cons.prems old by (simp add: list_update_append)
qed

lemma build_payload_eq:
  "build_payload command params = [0xD4, word_of_int command] @ params"
proof -
  have "fold (\<lambda>(i, val) d. d[2 + i := val]) (enumerate 0 params)
          ([0xD4, word_of_int command] @ replicate (length params) 0 @ [])
        = [0xD4, word_of_int command] @ params @ []"
    by (rule fold_enumerate_update) simp_all
  then show ?thesis
    unfolding build_payload_def Let_def HOSTTOPN532_def
    by (simp add: word8_and_ff)
qed

section \<open>The port\<close>

lemma length_ACK: "length ACK = 6"
  by (simp add: ACK_def)

lemma length_FRAME_START: "length FRAME_START = 3"
  by (simp add: FRAME_START_def)

lemma sreader_read_chunk:
  "incoming u = c # cs \<Longrightarrow>
   sreader_read n u =
     Some (Inr (take n c),
           u\<lparr>incoming := (if n < length c then drop n c # cs else cs),
             trace := trace u @ [ReadReq n]\<rparr>)"
  by (simp add: sreader_read_def)

text \<open>
  The loop that empties the read buffer returns as soon as one poll finds the buffer
  empty; it reads nothing from the stream reader and leaves the incoming chunks alone.
\<close>

lemma flush_loop_returns:
  "buffered u (polls u + k) = 0 \<Longrightarrow>
   \<exists>u'. flush_loop n u = Some u' \<and> incoming u' = incoming u \<and> stream_reads u' = stream_reads u"
proof (induction k arbitrary: n u)
  case 0
  show ?case
  proof (cases "n > 0")
    case False
    then show ?thesis by (simp add: flush_loop.simps)
  next
    case True
    with 0 show ?thesis
      by (subst flush_loop.simps, subst flush_loop.simps)
         (simp add: uart_any_def uart_read_def stream_reads_def)
  qed
next
  case (Suc k)
  show ?case
  proof (cases "n > 0")
    case False
    then show ?thesis by (simp add: flush_loop.simps)
  next
    case True
    let ?u = "snd (uart_any (uart_read n u))"
    let ?n = "fst (uart_any (uart_read n u))"
    have "buffered ?u (polls ?u + k) = 0"
      using Suc.prems by (simp add: uart_any_def uart_read_def)
    from Suc.IH [OF this, of ?n]
    obtain u' where "flush_loop ?n ?u = Some u'" "incoming u' = incoming ?u"
      "stream_reads u' = stream_reads ?u" by blast
    with True show ?thesis
      by (subst flush_loop.simps) (simp add: uart_any_def uart_read_def stream_reads_def)
  qed
qed

lemma flush_returns:
  assumes "buffered u (polls u + k) = 0"
  shows "\<exists>u'. flush u = Some (Inr (), u') \<and> incoming u' = incoming u
           \<and> stream_reads u' = stream_reads u"
proof (cases k)
  case 0
  with assms show ?thesis
    by (simp add: flush_def uart_any_def flush_loop.simps stream_reads_def)
next
  case (Suc k')
  let ?u = "snd (uart_any u)"
  have "buffered ?u (polls ?u + k') = 0"
    using assms Suc by (simp add: uart_any_def)
  from flush_loop_returns [OF this, of "fst (uart_any u)"]
  obtain u' where "flush_loop (fst (uart_any u)) ?u = Some u'" "incoming u' = incoming ?u"
      "stream_reads u' = stream_reads ?u" by blast
  then show ?thesis
    by (simp add: flush_def uart_any_def stream_reads_def)
qed

text \<open>
  \<^verbatim>\<open>_write_frame\<close> on a payload of 2 to 254 bytes, when the read buffer is found
  empty at some poll and a chunk arrives for the acknowledgement read: it returns, with
  \<open>AckMismatch\<close> unless the first six bytes read are the acknowledgement, and it has asked
  the stream reader for six bytes once.
\<close>

lemma write_frame_ack:
  assumes len: "1 < length data" "length data < 255"
    and quiet: "buffered u (polls u + k) = 0"
    and inc: "incoming u = c # cs"
  shows "\<exists>u'. write_frame data u
             = Some (if take 6 c \<noteq> ACK then Inl AckMismatch else Inr (), u')
           \<and> incoming u' = (if 6 < length c then drop 6 c # cs else cs)
           \<and> stream_reads u' = stream_reads u @ [ReadReq 6]"
proof -
  let ?u1 = "u\<lparr>trace := trace u @ [Wrote WAKEUP]\<rparr>"
  have "buffered ?u1 (polls ?u1 + k) = 0" using quiet by simp
  from flush_returns [OF this]
  obtain u2 where u2: "flush ?u1 = Some (Inr (), u2)" "incoming u2 = incoming ?u1"
    "stream_reads u2 = stream_reads ?u1" by blast
  show ?thesis
    using len u2 inc
    by (simp add: write_frame_def encode_def bind_io_def awrite_def drain_def sreader_read_def
        raise_def ret_def stream_reads_def length_ACK)
qed

lemma write_frame_quiet:
  assumes "1 < length data" "length data < 255"
    and "buffered u (polls u) = 0" and "incoming u = ACK # cs"
  shows "write_frame data u =
           Some (Inr (),
                 u\<lparr>polls := Suc (polls u), incoming := cs,
                   trace := trace u @ [Wrote WAKEUP, Polled 0, Wrote (build_frame data),
                                       Drained, ReadReq 6]\<rparr>)"
  using assms
  by (simp add: write_frame_def encode_def bind_io_def awrite_def drain_def flush_def
      uart_any_def flush_loop.simps sreader_read_def length_ACK ret_def raise_def)

text \<open>
  \<^verbatim>\<open>_read_frame\<close> once the header read has returned a start sequence with a length
  and a matching length checksum, and the second read has returned \<open>data\<close>.
\<close>

lemma read_frame_cases:
  assumes hdr: "sreader_read 5 u = Some (Inr (FRAME_START @ [l, lc]), u1)"
    and body: "sreader_read (unat l + 2) u1 = Some (Inr data, u2)"
    and lcs: "l + lc = 0"
  shows "read_frame u =
           Some (if sum_list data \<noteq> 0 then Inl PayloadChecksumMismatch
                 else if data = [] then Inl IndexError
                 else if last data \<noteq> 0 then Inl MissingFrameEnd
                 else Inr (take (unat l) data), u2)"
proof -
  have n: "nat (uint l + 2) = unat l + 2" by (simp add: nat_add_distrib)
  have c1: "(uint l + uint lc) AND 0xFF = 0"
    using lcs by (simp add: int_and_ff_zero)
  have c2: "(sum_list (map uint data) AND 0xFF = 0) = (sum_list data = 0)"
    by (simp add: int_and_ff_zero sum_uint_word)
  show ?thesis
    using hdr body c1
    by (simp add: read_frame_def bind_io_def raise_def ret_def length_FRAME_START n c2 Let_def
        nth_append uint_0_iff)
qed

text \<open>
  Reading back a frame that \<^verbatim>\<open>_write_frame\<close> builds gives the data it was built from,
  for every length that fits the length byte.
\<close>

lemma read_frame_build_frame:
  assumes len: "length data \<le> 255" and inc: "incoming u = build_frame data # cs"
  shows "read_frame u =
           Some (Inr data,
                 u\<lparr>incoming := cs,
                   trace := trace u @ [ReadReq 5, ReadReq (length data + 2)]\<rparr>)"
proof -
  let ?l = "word_of_int (int (length data)) :: byte"
  let ?body = "data @ [- sum_list data, 0 :: byte]"
  let ?u1 = "u\<lparr>incoming := ?body # cs, trace := trace u @ [ReadReq 5]\<rparr>"
  let ?u2 = "u\<lparr>incoming := cs, trace := trace u @ [ReadReq 5, ReadReq (length data + 2)]\<rparr>"
  have ul: "unat (word_of_nat (length data) :: byte) = length data"
    using len by (rule unat_length_byte)
  have hdr: "sreader_read 5 u = Some (Inr (FRAME_START @ [?l, - ?l]), ?u1)"
    using inc by (simp add: sreader_read_chunk build_frame_eq FRAME_START_def)
  have body: "sreader_read (unat ?l + 2) ?u1 = Some (Inr ?body, ?u2)"
    by (simp add: sreader_read_def ul)
  have "read_frame u =
           Some (if sum_list ?body \<noteq> 0 then Inl PayloadChecksumMismatch
                 else if ?body = [] then Inl IndexError
                 else if last ?body \<noteq> 0 then Inl MissingFrameEnd
                 else Inr (take (unat ?l) ?body), ?u2)"
    by (rule read_frame_cases [OF hdr body]) simp
  then show ?thesis by (simp add: ul)
qed

text \<open>
  In particular every frame that passes the assertion of \<^verbatim>\<open>_write_frame\<close>, a payload
  of 2 to 254 bytes, is read back as the payload.
\<close>

lemma read_frame_encode:
  assumes "encode data = Inr frame" and "incoming u = frame # cs"
  shows "read_frame u =
           Some (Inr data,
                 u\<lparr>incoming := cs,
                   trace := trace u @ [ReadReq 5, ReadReq (length data + 2)]\<rparr>)"
proof -
  from assms(1) have "length data \<le> 255" "frame = build_frame data"
    by (auto simp: encode_def split: if_splits)
  with assms(2) show ?thesis by (simp add: read_frame_build_frame)
qed

lemmas port_defs = quiet_uart_def bind_io_def ret_def raise_def sreader_read_def
  read_frame_def FRAME_START_def ACK_def call_function_def PN532TOHOST_def

section \<open>Frame codec\<close>

text \<open>
  C1, as the specification states it: for every payload of 1 to 254 bytes, decoding the
  frame built from the payload returns the payload. On the code a payload of one byte has no
  frame: the guard of \<^verbatim>\<open>_write_frame\<close>, \<^verbatim>\<open>1 < len(data) < 255\<close>, rejects it before
  anything is built or written, so there is nothing to decode.
\<close>

theorem write_frame_one_byte_payload:
  "write_frame [0xD4] (quiet_uart []) = Some (Inl InvalidPayload, quiet_uart [])"
  by (simp add: write_frame_def encode_def raise_def)

text \<open>
  C1, amended: for every payload of 2 to 254 bytes, the guard of \<^verbatim>\<open>_write_frame\<close>
  passes and the frame is built, and \<^verbatim>\<open>_read_frame\<close> on that frame succeeds and returns
  exactly the payload. Every payload the module sends has at least the direction byte and
  the command code, so the guard's lower bound excludes nothing the dispatcher builds.
\<close>

theorem read_frame_of_encoded_payload:
  assumes "2 \<le> length data" and "length data \<le> 254"
    and "incoming u = build_frame data # cs"
  shows "encode data = Inr (build_frame data)
         \<and> read_frame u =
             Some (Inr data,
                   u\<lparr>incoming := cs,
                     trace := trace u @ [ReadReq 5, ReadReq (length data + 2)]\<rparr>)"
proof -
  from assms(1,2) have "encode data = Inr (build_frame data)"
    by (simp add: encode_def)
  moreover from assms(2) have "length data \<le> 255" by simp
  from read_frame_build_frame [OF this assms(3)]
  have "read_frame u =
          Some (Inr data,
                u\<lparr>incoming := cs,
                  trace := trace u @ [ReadReq 5, ReadReq (length data + 2)]\<rparr>)" .
  ultimately show ?thesis by simp
qed

text \<open>
  C1, on the payload of \<^verbatim>\<open>get_firmware_version\<close>, \<open>[0xD4, 0x02]\<close>, whose frame is
  \<open>00 00 FF 02 FE D4 02 2A 00\<close>.
\<close>

theorem read_frame_of_encoded_payload_witness:
  "2 \<le> length [0xD4, 0x02 :: byte]
   \<and> length [0xD4, 0x02 :: byte] \<le> 254
   \<and> incoming (quiet_uart [[0x00, 0x00, 0xFF, 0x02, 0xFE, 0xD4, 0x02, 0x2A, 0x00]])
       = build_frame [0xD4, 0x02] # []
   \<and> encode [0xD4, 0x02] = Inr [0x00, 0x00, 0xFF, 0x02, 0xFE, 0xD4, 0x02, 0x2A, 0x00]
   \<and> read_frame (quiet_uart [[0x00, 0x00, 0xFF, 0x02, 0xFE, 0xD4, 0x02, 0x2A, 0x00]])
       = Some (Inr [0xD4, 0x02],
               (quiet_uart [[0x00, 0x00, 0xFF, 0x02, 0xFE, 0xD4, 0x02, 0x2A, 0x00]])
                 \<lparr>incoming := [], trace := [ReadReq 5, ReadReq 4]\<rparr>)"
proof -
  let ?u = "quiet_uart [[0x00, 0x00, 0xFF, 0x02, 0xFE, 0xD4, 0x02, 0x2A, 0x00]]"
  have f: "build_frame [0xD4, 0x02] = [0x00, 0x00, 0xFF, 0x02, 0xFE, 0xD4, 0x02, 0x2A, 0x00]"
    by (simp add: build_frame_eq)
  have h1: "2 \<le> length [0xD4, 0x02 :: byte]" by simp
  have h2: "length [0xD4, 0x02 :: byte] \<le> 254" by simp
  have h3: "incoming ?u = build_frame [0xD4, 0x02] # []"
    by (simp add: f quiet_uart_def)
  from read_frame_of_encoded_payload [OF h1 h2 h3] h1 h2 h3
  show ?thesis by (simp add: f quiet_uart_def)
qed

text \<open>
  C4, as the specification states it: encoding fails with \<open>InvalidPayload\<close> exactly for a
  payload of length 0 or of more than 254 bytes, and succeeds for every payload of 1 to 254
  bytes. On the code a payload of one byte fails as well.
\<close>

theorem encode_one_byte_payload:
  "encode [0xD4] = Inl InvalidPayload"
  by (simp add: encode_def)

text \<open>
  C4, amended: the guard of \<^verbatim>\<open>_write_frame\<close> fails with \<open>InvalidPayload\<close> exactly when
  the payload has fewer than 2 or more than 254 bytes; for every payload of 2 to 254 bytes
  it passes and the frame is built.
\<close>

theorem encode_fails_exactly:
  "(encode data = Inl InvalidPayload) = (length data < 2 \<or> 254 < length data)
   \<and> (encode data = Inr (build_frame data)) = (2 \<le> length data \<and> length data \<le> 254)"
  by (auto simp: encode_def)

text \<open>
  C4, on a payload of two bytes and on the empty payload.
\<close>

theorem encode_fails_exactly_witness:
  "encode [0xD4, 0x02] = Inr (build_frame [0xD4, 0x02]) \<and> encode [] = Inl InvalidPayload"
  using encode_fails_exactly [of "[0xD4, 0x02]"] encode_fails_exactly [of "[]"]
  by simp

section \<open>Polling for a card\<close>

text \<open>
  C2, as the specification states it: the response bytes
  \<open>[0xD5, 0x4B, 0x01, 0x00, 0x00, 0x04, 0xAA, 0xBB, 0xCC, 0xDD]\<close> make
  \<^verbatim>\<open>read_passive_target\<close> return the UID \<open>[0xAA, 0xBB, 0xCC, 0xDD]\<close>. On the code
  the dispatcher strips the first two bytes, index 5 of the rest is \<open>0xBB\<close>, and the
  operation fails with \<open>UidTooLong\<close>. The port delivers the acknowledgement and then the
  frame that carries these response bytes.
\<close>

theorem poll_spec_response_uid_too_long:
  "map_option fst
     (read_frame (snd (the (write_frame (build_payload 0x4A [0x01, 0x00])
        (quiet_uart [ACK, [0x00, 0x00, 0xFF, 0x0A, 0xF6, 0xD5, 0x4B, 0x01, 0x00, 0x00, 0x04,
                           0xAA, 0xBB, 0xCC, 0xDD, 0xCD, 0x00]])))))
     = Some (Inr [0xD5, 0x4B, 0x01, 0x00, 0x00, 0x04, 0xAA, 0xBB, 0xCC, 0xDD])
   \<and> map_option fst
     (read_passive_target 0x00
        (quiet_uart [ACK, [0x00, 0x00, 0xFF, 0x0A, 0xF6, 0xD5, 0x4B, 0x01, 0x00, 0x00, 0x04,
                           0xAA, 0xBB, 0xCC, 0xDD, 0xCD, 0x00]]))
     = Some (Inl UidTooLong)"
proof -
  let ?f = "[0x00, 0x00, 0xFF, 0x0A, 0xF6, 0xD5, 0x4B, 0x01, 0x00, 0x00, 0x04,
             0xAA, 0xBB, 0xCC, 0xDD, 0xCD, 0x00] :: byte list"
  have w: "write_frame (build_payload 0x4A [0x01, 0x00]) (quiet_uart [ACK, ?f]) =
      Some (Inr (), (quiet_uart [ACK, ?f])\<lparr>polls := Suc 0, incoming := [?f],
         trace := [Wrote WAKEUP, Polled 0, Wrote (build_frame (build_payload 0x4A [0x01, 0x00])),
                   Drained, ReadReq 6]\<rparr>)"
    by (simp add: write_frame_quiet build_payload_eq quiet_uart_def)
  show ?thesis
    unfolding read_passive_target_def call_function_def COMMAND_INLISTPASSIVETARGET_def
    by (simp add: w bind_io_def) (simp add: port_defs)
qed

text \<open>
  C2, amended: when the exchange of \<^verbatim>\<open>read_passive_target\<close> produces the response bytes
  \<open>[0xD5, 0x4B, 0x01, tg, s1, s2, sel, 0x04, 0xAA, 0xBB, 0xCC, 0xDD]\<close>, with four bytes
  between the target count and the UID length so that the length is at index 5 of what the
  dispatcher returns, the operation succeeds and returns the UID
  \<open>[0xAA, 0xBB, 0xCC, 0xDD]\<close>.
\<close>

theorem read_passive_target_uid_at_index_6:
  assumes "write_frame (build_payload COMMAND_INLISTPASSIVETARGET [0x01, card_baud]) u
             = Some (Inr (), u1)"
    and "read_frame u1
             = Some (Inr [0xD5, 0x4B, 0x01, tg, s1, s2, sel, 0x04, 0xAA, 0xBB, 0xCC, 0xDD], u2)"
  shows "read_passive_target card_baud u = Some (Inr [0xAA, 0xBB, 0xCC, 0xDD], u2)"
  using assms
  by (simp add: read_passive_target_def call_function_def bind_io_def ret_def raise_def
      slice_def PN532TOHOST_def COMMAND_INLISTPASSIVETARGET_def)

text \<open>
  C2, an exchange that meets the hypotheses: the acknowledgement, then the frame of a
  response for one ISO14443A card with a four-byte UID.
\<close>

theorem read_passive_target_uid_at_index_6_witness:
  "\<exists>u1 u2.
     write_frame (build_payload COMMAND_INLISTPASSIVETARGET [0x01, 0x00])
        (quiet_uart [ACK, [0x00, 0x00, 0xFF, 0x0C, 0xF4, 0xD5, 0x4B, 0x01, 0x01, 0x00, 0x04,
                           0x08, 0x04, 0xAA, 0xBB, 0xCC, 0xDD, 0xC0, 0x00]])
       = Some (Inr (), u1)
   \<and> read_frame u1
       = Some (Inr [0xD5, 0x4B, 0x01, 0x01, 0x00, 0x04, 0x08, 0x04, 0xAA, 0xBB, 0xCC, 0xDD], u2)
   \<and> read_passive_target 0x00
        (quiet_uart [ACK, [0x00, 0x00, 0xFF, 0x0C, 0xF4, 0xD5, 0x4B, 0x01, 0x01, 0x00, 0x04,
                           0x08, 0x04, 0xAA, 0xBB, 0xCC, 0xDD, 0xC0, 0x00]])
       = Some (Inr [0xAA, 0xBB, 0xCC, 0xDD], u2)"
proof -
  let ?f = "[0x00, 0x00, 0xFF, 0x0C, 0xF4, 0xD5, 0x4B, 0x01, 0x01, 0x00, 0x04,
             0x08, 0x04, 0xAA, 0xBB, 0xCC, 0xDD, 0xC0, 0x00] :: byte list"
  let ?u1 = "(quiet_uart [ACK, ?f])\<lparr>polls := Suc 0, incoming := [?f],
         trace := [Wrote WAKEUP, Polled 0,
                   Wrote (build_frame (build_payload COMMAND_INLISTPASSIVETARGET [0x01, 0x00])),
                   Drained, ReadReq 6]\<rparr>"
  let ?u2 = "?u1\<lparr>incoming := [], trace := trace ?u1 @ [ReadReq 5, ReadReq 14]\<rparr>"
  have w: "write_frame (build_payload COMMAND_INLISTPASSIVETARGET [0x01, 0x00])
             (quiet_uart [ACK, ?f]) = Some (Inr (), ?u1)"
    by (simp add: write_frame_quiet build_payload_eq quiet_uart_def)
  have r: "read_frame ?u1
      = Some (Inr [0xD5, 0x4B, 0x01, 0x01, 0x00, 0x04, 0x08, 0x04, 0xAA, 0xBB, 0xCC, 0xDD], ?u2)"
    by (simp add: port_defs)
  from read_passive_target_uid_at_index_6 [OF w r] w r show ?thesis by blast
qed

section \<open>Failures of the dispatcher\<close>

lemma write_frame_errors:
  "write_frame data u = Some (Inl e, u') \<Longrightarrow>
   (e = InvalidPayload \<and> \<not> (1 < length data \<and> length data < 255)) \<or> e = AckMismatch"
  by (auto simp: write_frame_def encode_def bind_io_def awrite_def drain_def flush_def
      sreader_read_def raise_def ret_def
      split: if_splits option.splits sum.splits prod.splits list.splits)

lemma read_frame_errors:
  "read_frame u = Some (Inl e, u') \<Longrightarrow>
   e \<in> {MalformedStart, LengthChecksumMismatch, PayloadChecksumMismatch, MissingFrameEnd,
         IndexError}"
  by (auto simp: read_frame_def bind_io_def sreader_read_def raise_def ret_def Let_def
      split: if_splits option.splits sum.splits prod.splits list.splits)

lemma call_function_errors:
  assumes a: "call_function command params u = Some (Inl e, u')"
  shows "(e = InvalidPayload \<and> \<not> (length params \<le> 252))
   \<or> e \<in> {AckMismatch, MalformedStart, LengthChecksumMismatch, PayloadChecksumMismatch,
            MissingFrameEnd, IndexError, TruncatedResponse, UnexpectedResponse}"
proof -
  have len: "length (build_payload command params) = 2 + length params"
    by (simp add: build_payload_eq)
  show ?thesis
  proof (cases "write_frame (build_payload command params) u")
    case None
    with a show ?thesis by (simp add: call_function_def bind_io_def)
  next
    case (Some r)
    obtain x u1 where r: "r = (x, u1)" by (cases r)
    show ?thesis
    proof (cases x)
      case (Inl e1)
      with a Some r have "e = e1" by (simp add: call_function_def bind_io_def)
      with write_frame_errors [of "build_payload command params" u e1 u1] Some r Inl len
      show ?thesis by auto
    next
      case (Inr unit)
      show ?thesis
      proof (cases "read_frame u1")
        case None
        with a Some r Inr show ?thesis by (simp add: call_function_def bind_io_def)
      next
        case (Some r2)
        obtain y u2 where r2: "r2 = (y, u2)" by (cases r2)
        show ?thesis
        proof (cases y)
          case (Inl e2)
          with a \<open>write_frame (build_payload command params) u = Some r\<close> r Inr Some r2
          have "e = e2" by (simp add: call_function_def bind_io_def)
          with read_frame_errors [of u1 e2 u2] Some r2 Inl show ?thesis by auto
        next
          case (Inr resp)
          with a \<open>write_frame (build_payload command params) u = Some r\<close> r
            \<open>x = Inr unit\<close> Some r2
          show ?thesis
            by (auto simp: call_function_def bind_io_def raise_def ret_def split: if_splits)
        qed
      qed
    qed
  qed
qed

lemma mod_256_zero: "(k mod 256 = 0) = ((word_of_int k :: byte) = 0)"
  by (simp add: word_of_int_eq_0_iff mod_eq_0_iff_dvd)

section \<open>Firmware version\<close>

text \<open>
  C3, as the specification states it: \<^verbatim>\<open>get_firmware_version\<close> fails with
  \<open>DeviceNotDetected\<close> when the dispatcher's response content is empty or shorter than
  four bytes. On the code a reply without content, the response bytes \<open>[0xD5, 0x03]\<close>, is
  returned as the empty tuple.
\<close>

theorem firmware_version_empty_response:
  "map_option fst
     (call_function 0x02 []
        (quiet_uart [ACK, [0x00, 0x00, 0xFF, 0x02, 0xFE, 0xD5, 0x03, 0x28, 0x00]]))
     = Some (Inr [])
   \<and> map_option fst
     (get_firmware_version
        (quiet_uart [ACK, [0x00, 0x00, 0xFF, 0x02, 0xFE, 0xD5, 0x03, 0x28, 0x00]]))
     = Some (Inr [])"
proof -
  let ?f = "[0x00, 0x00, 0xFF, 0x02, 0xFE, 0xD5, 0x03, 0x28, 0x00] :: byte list"
  have w: "write_frame (build_payload 0x02 []) (quiet_uart [ACK, ?f]) =
      Some (Inr (), (quiet_uart [ACK, ?f])\<lparr>polls := Suc 0, incoming := [?f],
         trace := [Wrote WAKEUP, Polled 0, Wrote (build_frame (build_payload 0x02 [])),
                   Drained, ReadReq 6]\<rparr>)"
    by (simp add: write_frame_quiet build_payload_eq quiet_uart_def)
  show ?thesis
    unfolding get_firmware_version_def call_function_def COMMAND_GETFIRMWAREVERSION_def
    by (simp add: w bind_io_def) (simp add: port_defs is_None_def)
qed

text \<open>
  C3, amended: \<^verbatim>\<open>get_firmware_version\<close> makes no check on the length of the response.
  A failure of the dispatcher propagates unchanged, and every response content the
  dispatcher returns is returned as the tuple of its bytes, so the tuple has four values
  exactly when the response content has four bytes. The operation never fails with
  \<open>DeviceNotDetected\<close>: that is raised for a response that is \<^verbatim>\<open>None\<close> only, and the
  dispatcher returns none.
\<close>

theorem get_firmware_version_returns_response:
  "get_firmware_version u =
     (case call_function COMMAND_GETFIRMWAREVERSION [] u of
        None \<Rightarrow> None
      | Some (Inl e, u') \<Rightarrow> Some (Inl e, u')
      | Some (Inr response, u') \<Rightarrow> Some (Inr (map uint response), u'))
   \<and> get_firmware_version u \<noteq> Some (Inl DeviceNotDetected, u'')"
proof -
  have eq: "get_firmware_version u =
     (case call_function COMMAND_GETFIRMWAREVERSION [] u of
        None \<Rightarrow> None
      | Some (Inl e, u') \<Rightarrow> Some (Inl e, u')
      | Some (Inr response, u') \<Rightarrow> Some (Inr (map uint response), u'))"
    by (simp add: get_firmware_version_def bind_io_def is_None_def ret_def
        split: option.splits sum.splits prod.splits)
  have "get_firmware_version u \<noteq> Some (Inl DeviceNotDetected, u'')"
  proof
    assume "get_firmware_version u = Some (Inl DeviceNotDetected, u'')"
    with eq have "call_function COMMAND_GETFIRMWAREVERSION [] u
                    = Some (Inl DeviceNotDetected, u'')"
      by (auto split: option.splits sum.splits prod.splits)
    from call_function_errors [OF this] show False by simp
  qed
  with eq show ?thesis by simp
qed

text \<open>
  C3, on an exchange in which the device answers with the four bytes of its version: the
  tuple has four values.
\<close>

theorem get_firmware_version_returns_response_witness:
  "map_option fst
     (get_firmware_version
        (quiet_uart [ACK, [0x00, 0x00, 0xFF, 0x06, 0xFA, 0xD5, 0x03, 0x32, 0x01, 0x06, 0x07,
                           0xE8, 0x00]]))
     = Some (Inr [0x32, 0x01, 0x06, 0x07])
   \<and> get_firmware_version
        (quiet_uart [ACK, [0x00, 0x00, 0xFF, 0x06, 0xFA, 0xD5, 0x03, 0x32, 0x01, 0x06, 0x07,
                           0xE8, 0x00]])
     \<noteq> Some (Inl DeviceNotDetected, quiet_uart [])"
proof -
  let ?f = "[0x00, 0x00, 0xFF, 0x06, 0xFA, 0xD5, 0x03, 0x32, 0x01, 0x06, 0x07,
             0xE8, 0x00] :: byte list"
  have w: "write_frame (build_payload 0x02 []) (quiet_uart [ACK, ?f]) =
      Some (Inr (), (quiet_uart [ACK, ?f])\<lparr>polls := Suc 0, incoming := [?f],
         trace := [Wrote WAKEUP, Polled 0, Wrote (build_frame (build_payload 0x02 [])),
                   Drained, ReadReq 6]\<rparr>)"
    by (simp add: write_frame_quiet build_payload_eq quiet_uart_def)
  have c: "map_option fst (call_function COMMAND_GETFIRMWAREVERSION [] (quiet_uart [ACK, ?f]))
             = Some (Inr [0x32, 0x01, 0x06, 0x07])"
    unfolding call_function_def COMMAND_GETFIRMWAREVERSION_def
    by (simp add: w bind_io_def) (simp add: port_defs)
  from get_firmware_version_returns_response
         [of "quiet_uart [ACK, ?f]" "quiet_uart []"] c
  show ?thesis
    by (auto split: option.splits sum.splits prod.splits)
qed

section \<open>Reading a frame with a wrong last byte\<close>

text \<open>
  C5. For every frame whose start sequence and length checksum are valid and whose payload
  bytes plus the trailing checksum byte sum to 0 modulo 256, but whose last byte is not the
  postamble value, decoding fails with \<open>MissingFrameEnd\<close>. Lines 124 and 125 of
  \<^verbatim>\<open>_read_frame\<close> are there to raise 'Response does not include Frame End' for such
  a frame, but line 120 sums the last byte into the checksum and line 121 tests that sum
  first. On the frame \<open>00 00 FF 02 FE D5 03 28 01\<close>, with payload \<open>[0xD5, 0x03]\<close>,
  checksum \<open>0x28\<close> and last byte \<open>0x01\<close>, the code fails with
  \<open>PayloadChecksumMismatch\<close> instead.
\<close>

theorem read_frame_wrong_last_byte_example:
  "map_option fst
     (read_frame (quiet_uart [[0x00, 0x00, 0xFF, 0x02, 0xFE, 0xD5, 0x03, 0x28, 0x01]]))
     = Some (Inl PayloadChecksumMismatch)"
  by (simp add: port_defs)

text \<open>
  The same happens for every frame of that kind that arrives whole: the checksum failure
  is raised although the data checksum of the frame is right.
\<close>

lemma read_frame_wrong_last_byte:
  assumes inc: "incoming u = (FRAME_START @ [l, lc] @ payload @ [dcs, post]) # cs"
    and lcs: "(uint l + uint lc) mod 256 = 0"
    and len: "length payload = unat l"
    and sum: "(sum_list (map uint payload) + uint dcs) mod 256 = 0"
    and post: "uint post \<noteq> POSTAMBLE"
  shows "read_frame u =
           Some (Inl PayloadChecksumMismatch,
                 u\<lparr>incoming := cs, trace := trace u @ [ReadReq 5, ReadReq (unat l + 2)]\<rparr>)"
proof -
  let ?body = "payload @ [dcs, post]"
  let ?u1 = "u\<lparr>incoming := ?body # cs, trace := trace u @ [ReadReq 5]\<rparr>"
  let ?u2 = "u\<lparr>incoming := cs, trace := trace u @ [ReadReq 5, ReadReq (unat l + 2)]\<rparr>"
  have hdr: "sreader_read 5 u = Some (Inr (FRAME_START @ [l, lc]), ?u1)"
    using inc by (simp add: sreader_read_chunk FRAME_START_def)
  have body: "sreader_read (unat l + 2) ?u1 = Some (Inr ?body, ?u2)"
    using len by (simp add: sreader_read_def)
  have l0: "l + lc = 0"
    using lcs by (simp add: mod_256_zero)
  have "sum_list payload + dcs = 0"
    using sum by (simp add: mod_256_zero sum_uint_word)
  moreover have "post \<noteq> 0"
    using post by (auto simp: POSTAMBLE_def)
  ultimately have "sum_list ?body \<noteq> 0"
    by (simp flip: add.assoc)
  with read_frame_cases [OF hdr body l0] show ?thesis by simp
qed

text \<open>
  The failure for a missing frame end is left to frames whose data checksum is wrong: it
  is raised only when the payload and the checksum byte do not sum to 0 modulo 256 and the
  last byte makes up the difference.
\<close>

lemma frame_end_only_if_checksum_wrong:
  assumes inc: "incoming u = (FRAME_START @ [l, lc] @ payload @ [dcs, post]) # cs"
    and lcs: "(uint l + uint lc) mod 256 = 0"
    and len: "length payload = unat l"
    and res: "read_frame u = Some (Inl MissingFrameEnd, u')"
  shows "(sum_list (map uint payload) + uint dcs) mod 256 \<noteq> 0"
proof
  assume sum: "(sum_list (map uint payload) + uint dcs) mod 256 = 0"
  show False
  proof (cases "uint post = POSTAMBLE")
    case True
    let ?body = "payload @ [dcs, post]"
    let ?u1 = "u\<lparr>incoming := ?body # cs, trace := trace u @ [ReadReq 5]\<rparr>"
    let ?u2 = "u\<lparr>incoming := cs, trace := trace u @ [ReadReq 5, ReadReq (unat l + 2)]\<rparr>"
    have hdr: "sreader_read 5 u = Some (Inr (FRAME_START @ [l, lc]), ?u1)"
      using inc by (simp add: sreader_read_chunk FRAME_START_def)
    have body: "sreader_read (unat l + 2) ?u1 = Some (Inr ?body, ?u2)"
      using len by (simp add: sreader_read_def)
    have l0: "l + lc = 0"
      using lcs by (simp add: mod_256_zero)
    have "post = 0"
      using True by (simp add: POSTAMBLE_def uint_0_iff)
    with read_frame_cases [OF hdr body l0] res show False
      by (simp split: if_splits)
  next
    case False
    from read_frame_wrong_last_byte [OF inc lcs len sum False] res show False by simp
  qed
qed

section \<open>The acknowledgement\<close>

text \<open>
  C6. Whenever the read of the acknowledgement returns anything other than the six bytes of
  the acknowledgement, a short read included, \<^verbatim>\<open>call_function\<close> fails with
  \<open>AckMismatch\<close>, and the acknowledgement read is the only read it has made of the stream
  reader: no frame is read afterwards. The read is reached when the payload passes the
  assertion (at most 252 parameters) and some poll finds the read buffer empty; it returns
  what the first incoming chunk holds, up to six bytes.
\<close>

theorem call_function_ack_mismatch:
  assumes "length params \<le> 252"
    and "buffered u (polls u + k) = 0"
    and "incoming u = ack # cs"
    and "take (length ACK) ack \<noteq> ACK"
  shows "\<exists>u'. call_function command params u = Some (Inl AckMismatch, u')
              \<and> stream_reads u' = stream_reads u @ [ReadReq (length ACK)]"
proof -
  have "1 < length (build_payload command params)"
       "length (build_payload command params) < 255"
    using assms(1) by (simp_all add: build_payload_eq)
  from write_frame_ack [OF this assms(2,3)] assms(4)
  obtain u' where "write_frame (build_payload command params) u = Some (Inl AckMismatch, u')"
    "stream_reads u' = stream_reads u @ [ReadReq 6]"
    by (auto simp: length_ACK)
  then show ?thesis
    by (simp add: call_function_def bind_io_def length_ACK)
qed

text \<open>
  C6, on a port where only three bytes arrive for the acknowledgement.
\<close>

theorem call_function_ack_mismatch_witness:
  "length [0x01, 0x00 :: byte] \<le> 252
   \<and> buffered (quiet_uart [[0x00, 0x00, 0xFF]]) (polls (quiet_uart [[0x00, 0x00, 0xFF]]) + 0) = 0
   \<and> incoming (quiet_uart [[0x00, 0x00, 0xFF]]) = [0x00, 0x00, 0xFF] # []
   \<and> take (length ACK) [0x00, 0x00, 0xFF] \<noteq> ACK
   \<and> (\<exists>u'. call_function 0x4A [0x01, 0x00] (quiet_uart [[0x00, 0x00, 0xFF]])
                = Some (Inl AckMismatch, u')
            \<and> stream_reads u' = stream_reads (quiet_uart [[0x00, 0x00, 0xFF]])
                                   @ [ReadReq (length ACK)])"
proof -
  let ?u = "quiet_uart [[0x00, 0x00, 0xFF]]"
  have h1: "length [0x01, 0x00 :: byte] \<le> 252" by simp
  have h2: "buffered ?u (polls ?u + 0) = 0" by (simp add: quiet_uart_def)
  have h3: "incoming ?u = [0x00, 0x00, 0xFF] # []" by (simp add: quiet_uart_def)
  have h4: "take (length ACK) [0x00, 0x00, 0xFF] \<noteq> ACK" by (simp add: ACK_def)
  from call_function_ack_mismatch [OF h1 h2 h3 h4, of "0x4A"] h1 h2 h3 h4
  show ?thesis by blast
qed

section \<open>Validation of the response\<close>

text \<open>
  C7. For every command code and every response payload that \<^verbatim>\<open>_read_frame\<close> returns
  after the frame was written and acknowledged, \<^verbatim>\<open>call_function\<close> fails with
  \<open>TruncatedResponse\<close> when the response has fewer than two bytes, fails with
  \<open>UnexpectedResponse\<close> when its first byte is not \<open>0xD5\<close> or its second byte is not
  the command code plus one, and otherwise returns the response without its first two
  bytes.
\<close>

theorem call_function_validation:
  assumes "write_frame (build_payload command params) u = Some (Inr (), u1)"
    and "read_frame u1 = Some (Inr response, u2)"
  shows "call_function command params u =
           Some (if length response < 2 then Inl TruncatedResponse
                 else if uint (response ! 0) \<noteq> 0xD5 \<or> uint (response ! 1) \<noteq> command + 1
                 then Inl UnexpectedResponse
                 else Inr (drop 2 response), u2)"
  using assms
  by (simp add: call_function_def bind_io_def raise_def ret_def PN532TOHOST_def)

text \<open>
  C7, on the exchange of \<^verbatim>\<open>release_targets\<close>: command \<open>0x52\<close>, response bytes
  \<open>[0xD5, 0x53, 0x00]\<close>.
\<close>

theorem call_function_validation_witness:
  "\<exists>u1 u2.
     write_frame (build_payload 0x52 [0x00])
        (quiet_uart [ACK, [0x00, 0x00, 0xFF, 0x03, 0xFD, 0xD5, 0x53, 0x00, 0xD8, 0x00]])
       = Some (Inr (), u1)
   \<and> read_frame u1 = Some (Inr [0xD5, 0x53, 0x00], u2)
   \<and> call_function 0x52 [0x00]
        (quiet_uart [ACK, [0x00, 0x00, 0xFF, 0x03, 0xFD, 0xD5, 0x53, 0x00, 0xD8, 0x00]])
       = Some (Inr [0x00], u2)"
proof -
  let ?f = "[0x00, 0x00, 0xFF, 0x03, 0xFD, 0xD5, 0x53, 0x00, 0xD8, 0x00] :: byte list"
  let ?u1 = "(quiet_uart [ACK, ?f])\<lparr>polls := Suc 0, incoming := [?f],
         trace := [Wrote WAKEUP, Polled 0, Wrote (build_frame (build_payload 0x52 [0x00])),
                   Drained, ReadReq 6]\<rparr>"
  let ?u2 = "?u1\<lparr>incoming := [], trace := trace ?u1 @ [ReadReq 5, ReadReq 5]\<rparr>"
  have w: "write_frame (build_payload 0x52 [0x00]) (quiet_uart [ACK, ?f]) = Some (Inr (), ?u1)"
    by (simp add: write_frame_quiet build_payload_eq quiet_uart_def)
  have r: "read_frame ?u1 = Some (Inr [0xD5, 0x53, 0x00], ?u2)"
    by (simp add: port_defs)
  from call_function_validation [OF w r] w r show ?thesis by auto
qed

section \<open>The UID of a card\<close>

text \<open>
  C8, as the specification states it: for a dispatcher response of at least seven bytes
  that passes both checks, \<^verbatim>\<open>read_passive_target\<close> returns a slice from index 6 whose
  length is the value at index 5. On the code the response content
  \<open>[0x01, 0x00, 0x00, 0x00, 0x00, 0x04, 0xAA]\<close> has seven bytes and announces four, and
  the UID returned is the single byte \<open>0xAA\<close>.
\<close>

theorem poll_uid_shorter_than_announced:
  "map_option fst
     (call_function 0x4A [0x01, 0x00]
        (quiet_uart [ACK, [0x00, 0x00, 0xFF, 0x09, 0xF7, 0xD5, 0x4B, 0x01, 0x00, 0x00, 0x00,
                           0x00, 0x04, 0xAA, 0x31, 0x00]]))
     = Some (Inr [0x01, 0x00, 0x00, 0x00, 0x00, 0x04, 0xAA])
   \<and> map_option fst
     (read_passive_target 0x00
        (quiet_uart [ACK, [0x00, 0x00, 0xFF, 0x09, 0xF7, 0xD5, 0x4B, 0x01, 0x00, 0x00, 0x00,
                           0x00, 0x04, 0xAA, 0x31, 0x00]]))
     = Some (Inr [0xAA])"
proof -
  let ?f = "[0x00, 0x00, 0xFF, 0x09, 0xF7, 0xD5, 0x4B, 0x01, 0x00, 0x00, 0x00,
             0x00, 0x04, 0xAA, 0x31, 0x00] :: byte list"
  have w: "write_frame (build_payload 0x4A [0x01, 0x00]) (quiet_uart [ACK, ?f]) =
      Some (Inr (), (quiet_uart [ACK, ?f])\<lparr>polls := Suc 0, incoming := [?f],
         trace := [Wrote WAKEUP, Polled 0, Wrote (build_frame (build_payload 0x4A [0x01, 0x00])),
                   Drained, ReadReq 6]\<rparr>)"
    by (simp add: write_frame_quiet build_payload_eq quiet_uart_def)
  show ?thesis
    unfolding read_passive_target_def call_function_def COMMAND_INLISTPASSIVETARGET_def
    by (simp add: w bind_io_def) (simp add: port_defs slice_def)
qed

text \<open>
  C8, amended: for every dispatcher response with at least seven bytes,
  \<^verbatim>\<open>read_passive_target\<close> fails with \<open>MultipleCardsDetected\<close> when the first byte is
  not 1, otherwise fails with \<open>UidTooLong\<close> when the byte at index 5 exceeds 7, and
  otherwise returns the slice \<^verbatim>\<open>response[6:6+response[5]]\<close>: the bytes from index 6 up
  to the end of the response, at most as many as the byte at index 5 says. The slice has
  that many bytes exactly when the response has at least six bytes more than that.
\<close>

theorem read_passive_target_validation:
  assumes "call_function COMMAND_INLISTPASSIVETARGET [0x01, card_baud] u
             = Some (Inr response, u')"
    and "7 \<le> length response"
  shows "read_passive_target card_baud u =
           Some (if uint (response ! 0) \<noteq> 1 then Inl MultipleCardsDetected
                 else if 7 < uint (response ! 5) then Inl UidTooLong
                 else Inr (slice 6 (6 + unat (response ! 5)) response), u')
         \<and> slice 6 (6 + unat (response ! 5)) response
             = take (unat (response ! 5)) (drop 6 response)
         \<and> length (slice 6 (6 + unat (response ! 5)) response)
             = min (unat (response ! 5)) (length response - 6)"
proof -
  have s: "slice 6 (6 + unat (response ! 5)) response
             = take (unat (response ! 5)) (drop 6 response)"
    by (simp add: slice_def drop_take)
  have "read_passive_target card_baud u =
           Some (if uint (response ! 0) \<noteq> 1 then Inl MultipleCardsDetected
                 else if 7 < uint (response ! 5) then Inl UidTooLong
                 else Inr (slice 6 (6 + unat (response ! 5)) response), u')"
    using assms
    by (auto simp: read_passive_target_def bind_io_def raise_def ret_def)
  with s show ?thesis by (simp add: min.commute)
qed

text \<open>
  C8, on the response for one card with a seven-byte UID.
\<close>

theorem read_passive_target_validation_witness:
  "\<exists>u'.
     call_function COMMAND_INLISTPASSIVETARGET [0x01, 0x00]
        (quiet_uart [ACK, [0x00, 0x00, 0xFF, 0x0F, 0xF1, 0xD5, 0x4B, 0x01, 0x01, 0x00, 0x44,
                           0x00, 0x07, 0x04, 0xA1, 0xB2, 0xC3, 0xD4, 0xE5, 0xF6, 0xCA, 0x00]])
       = Some (Inr [0x01, 0x01, 0x00, 0x44, 0x00, 0x07, 0x04, 0xA1, 0xB2, 0xC3, 0xD4, 0xE5,
                    0xF6], u')
   \<and> 7 \<le> length [0x01, 0x01, 0x00, 0x44, 0x00, 0x07, 0x04, 0xA1, 0xB2, 0xC3, 0xD4, 0xE5,
                    0xF6 :: byte]
   \<and> read_passive_target 0x00
        (quiet_uart [ACK, [0x00, 0x00, 0xFF, 0x0F, 0xF1, 0xD5, 0x4B, 0x01, 0x01, 0x00, 0x44,
                           0x00, 0x07, 0x04, 0xA1, 0xB2, 0xC3, 0xD4, 0xE5, 0xF6, 0xCA, 0x00]])
       = Some (Inr [0x04, 0xA1, 0xB2, 0xC3, 0xD4, 0xE5, 0xF6], u')"
proof -
  let ?f = "[0x00, 0x00, 0xFF, 0x0F, 0xF1, 0xD5, 0x4B, 0x01, 0x01, 0x00, 0x44,
             0x00, 0x07, 0x04, 0xA1, 0xB2, 0xC3, 0xD4, 0xE5, 0xF6, 0xCA, 0x00] :: byte list"
  let ?r = "[0x01, 0x01, 0x00, 0x44, 0x00, 0x07, 0x04, 0xA1, 0xB2, 0xC3, 0xD4, 0xE5,
             0xF6] :: byte list"
  let ?u1 = "(quiet_uart [ACK, ?f])\<lparr>polls := Suc 0, incoming := [?f],
         trace := [Wrote WAKEUP, Polled 0,
                   Wrote (build_frame (build_payload COMMAND_INLISTPASSIVETARGET [0x01, 0x00])),
                   Drained, ReadReq 6]\<rparr>"
  let ?u2 = "?u1\<lparr>incoming := [], trace := trace ?u1 @ [ReadReq 5, ReadReq 17]\<rparr>"
  have w: "write_frame (build_payload COMMAND_INLISTPASSIVETARGET [0x01, 0x00])
             (quiet_uart [ACK, ?f]) = Some (Inr (), ?u1)"
    by (simp add: write_frame_quiet build_payload_eq quiet_uart_def)
  have c: "call_function COMMAND_INLISTPASSIVETARGET [0x01, 0x00] (quiet_uart [ACK, ?f])
             = Some (Inr ?r, ?u2)"
    unfolding call_function_def
    by (simp add: w bind_io_def) (simp add: port_defs COMMAND_INLISTPASSIVETARGET_def)
  have l: "7 \<le> length ?r" by simp
  from read_passive_target_validation [OF c l] c l show ?thesis
    by (auto simp: slice_def)
qed

section \<open>Responses too short to hold a UID\<close>

text \<open>
  C9, as stated: every dispatcher response of fewer than six bytes makes
  \<^verbatim>\<open>read_passive_target\<close> raise an out-of-range indexing error. On the code the
  one-byte response content \<open>[0x02]\<close> fails with \<open>MultipleCardsDetected\<close>: the test of
  \<^verbatim>\<open>response[0]\<close> comes before \<^verbatim>\<open>response[5]\<close> is read.
\<close>

theorem poll_short_response_multiple_cards:
  "map_option fst
     (call_function 0x4A [0x01, 0x00]
        (quiet_uart [ACK, [0x00, 0x00, 0xFF, 0x03, 0xFD, 0xD5, 0x4B, 0x02, 0xDE, 0x00]]))
     = Some (Inr [0x02])
   \<and> map_option fst
     (read_passive_target 0x00
        (quiet_uart [ACK, [0x00, 0x00, 0xFF, 0x03, 0xFD, 0xD5, 0x4B, 0x02, 0xDE, 0x00]]))
     = Some (Inl MultipleCardsDetected)"
proof -
  let ?f = "[0x00, 0x00, 0xFF, 0x03, 0xFD, 0xD5, 0x4B, 0x02, 0xDE, 0x00] :: byte list"
  have w: "write_frame (build_payload 0x4A [0x01, 0x00]) (quiet_uart [ACK, ?f]) =
      Some (Inr (), (quiet_uart [ACK, ?f])\<lparr>polls := Suc 0, incoming := [?f],
         trace := [Wrote WAKEUP, Polled 0, Wrote (build_frame (build_payload 0x4A [0x01, 0x00])),
                   Drained, ReadReq 6]\<rparr>)"
    by (simp add: write_frame_quiet build_payload_eq quiet_uart_def)
  show ?thesis
    unfolding read_passive_target_def call_function_def COMMAND_INLISTPASSIVETARGET_def
    by (simp add: w bind_io_def) (simp add: port_defs)
qed

text \<open>
  C9, amended: \<^verbatim>\<open>read_passive_target\<close> reads \<^verbatim>\<open>response[0]\<close> and
  \<^verbatim>\<open>response[5]\<close> without a check of the length of the dispatcher's response, which
  may have any length from 0 on. For every response of fewer than six bytes it fails: with
  \<open>IndexError\<close>, which is not in the documented taxonomy, when the response is empty
  or its first byte is 1, and with \<open>MultipleCardsDetected\<close> when its first byte is not 1.
\<close>

theorem read_passive_target_short_response:
  assumes "call_function COMMAND_INLISTPASSIVETARGET [0x01, card_baud] u
             = Some (Inr response, u')"
    and "length response < 6"
  shows "read_passive_target card_baud u =
           Some (if response = [] then Inl IndexError
                 else if uint (response ! 0) \<noteq> 1 then Inl MultipleCardsDetected
                 else Inl IndexError, u')"
  using assms
  by (simp add: read_passive_target_def bind_io_def raise_def ret_def)

text \<open>
  C9, on the response bytes \<open>[0xD5, 0x4B, 0x01]\<close>, which pass the dispatcher and leave
  one byte: the read of \<^verbatim>\<open>response[5]\<close> is out of range.
\<close>

theorem read_passive_target_short_response_witness:
  "\<exists>u'.
     call_function COMMAND_INLISTPASSIVETARGET [0x01, 0x00]
        (quiet_uart [ACK, [0x00, 0x00, 0xFF, 0x03, 0xFD, 0xD5, 0x4B, 0x01, 0xDF, 0x00]])
       = Some (Inr [0x01], u')
   \<and> length [0x01 :: byte] < 6
   \<and> read_passive_target 0x00
        (quiet_uart [ACK, [0x00, 0x00, 0xFF, 0x03, 0xFD, 0xD5, 0x4B, 0x01, 0xDF, 0x00]])
       = Some (Inl IndexError, u')"
proof -
  let ?f = "[0x00, 0x00, 0xFF, 0x03, 0xFD, 0xD5, 0x4B, 0x01, 0xDF, 0x00] :: byte list"
  let ?u1 = "(quiet_uart [ACK, ?f])\<lparr>polls := Suc 0, incoming := [?f],
         trace := [Wrote WAKEUP, Polled 0,
                   Wrote (build_frame (build_payload COMMAND_INLISTPASSIVETARGET [0x01, 0x00])),
                   Drained, ReadReq 6]\<rparr>"
  let ?u2 = "?u1\<lparr>incoming := [], trace := trace ?u1 @ [ReadReq 5, ReadReq 5]\<rparr>"
  have w: "write_frame (build_payload COMMAND_INLISTPASSIVETARGET [0x01, 0x00])
             (quiet_uart [ACK, ?f]) = Some (Inr (), ?u1)"
    by (simp add: write_frame_quiet build_payload_eq quiet_uart_def)
  have c: "call_function COMMAND_INLISTPASSIVETARGET [0x01, 0x00] (quiet_uart [ACK, ?f])
             = Some (Inr [0x01], ?u2)"
    unfolding call_function_def
    by (simp add: w bind_io_def) (simp add: port_defs COMMAND_INLISTPASSIVETARGET_def)
  have l: "length [0x01 :: byte] < 6" by simp
  from read_passive_target_short_response [OF c l] c l show ?thesis
    by auto
qed

section \<open>Payloads of the public operations\<close>

text \<open>
  C10. Every payload \<^verbatim>\<open>call_function\<close> builds has two bytes more than it has
  parameters. For the four public operations (\<^verbatim>\<open>SAM_configuration\<close> with three
  parameters, \<^verbatim>\<open>get_firmware_version\<close> with none, \<^verbatim>\<open>read_passive_target\<close> with two,
  \<^verbatim>\<open>release_targets\<close> with one) the length of the payload lies strictly between 1 and
  255, the assertion of \<^verbatim>\<open>_write_frame\<close> holds and a frame is built, and none of the four
  fails with \<open>InvalidPayload\<close>, whatever the port does.
\<close>

theorem public_operations_payload_valid:
  "length (build_payload command params) = 2 + length params
   \<and> length (build_payload COMMAND_SAMCONFIGURATION [0x01, 0x14, 0x01]) = 5
   \<and> length (build_payload COMMAND_GETFIRMWAREVERSION []) = 2
   \<and> length (build_payload COMMAND_INLISTPASSIVETARGET [0x01, card_baud]) = 4
   \<and> length (build_payload COMMAND_INRELEASE [0x00]) = 3
   \<and> encode (build_payload COMMAND_SAMCONFIGURATION [0x01, 0x14, 0x01])
       = Inr (build_frame (build_payload COMMAND_SAMCONFIGURATION [0x01, 0x14, 0x01]))
   \<and> encode (build_payload COMMAND_GETFIRMWAREVERSION [])
       = Inr (build_frame (build_payload COMMAND_GETFIRMWAREVERSION []))
   \<and> encode (build_payload COMMAND_INLISTPASSIVETARGET [0x01, card_baud])
       = Inr (build_frame (build_payload COMMAND_INLISTPASSIVETARGET [0x01, card_baud]))
   \<and> encode (build_payload COMMAND_INRELEASE [0x00])
       = Inr (build_frame (build_payload COMMAND_INRELEASE [0x00]))
   \<and> SAM_configuration u \<noteq> Some (Inl InvalidPayload, u')
   \<and> get_firmware_version u \<noteq> Some (Inl InvalidPayload, u')
   \<and> read_passive_target card_baud u \<noteq> Some (Inl InvalidPayload, u')
   \<and> release_targets u \<noteq> Some (Inl InvalidPayload, u')"
proof -
  have valid: "call_function c ps u \<noteq> Some (Inl InvalidPayload, u')"
    if "length ps \<le> 252" for c ps
    using call_function_errors [of c ps u InvalidPayload u'] that by auto
  have sam: "SAM_configuration u \<noteq> Some (Inl InvalidPayload, u')"
    using valid [of "[0x01, 0x14, 0x01]" COMMAND_SAMCONFIGURATION]
    by (auto simp: SAM_configuration_def bind_io_def ret_def
        split: option.splits sum.splits prod.splits)
  have fw: "get_firmware_version u \<noteq> Some (Inl InvalidPayload, u')"
    using valid [of "[]" COMMAND_GETFIRMWAREVERSION]
    by (auto simp: get_firmware_version_def bind_io_def ret_def raise_def is_None_def
        split: option.splits sum.splits prod.splits)
  have poll: "read_passive_target card_baud u \<noteq> Some (Inl InvalidPayload, u')"
    using valid [of "[0x01, card_baud]" COMMAND_INLISTPASSIVETARGET]
    by (auto simp: read_passive_target_def bind_io_def ret_def raise_def
        split: option.splits sum.splits prod.splits if_splits)
  have rel: "release_targets u \<noteq> Some (Inl InvalidPayload, u')"
    using valid [of "[0x00]" COMMAND_INRELEASE]
    by (auto simp: release_targets_def bind_io_def ret_def
        split: option.splits sum.splits prod.splits)
  show ?thesis
    using sam fw poll rel by (simp add: build_payload_eq encode_def)
qed

end
